theory Spec2Isabelle
  imports Main
begin

section \<open>JavaScript values\<close>

text \<open>
  The hook \<^verbatim>\<open>usePlacesAutocomplete\<close> (src/src/index.ts) reads the parsed JSON body of a
  response with plain property access, so the body is modelled untyped, as the value the
  JavaScript code holds at run time. \<open>JUndefined\<close> is what reading an absent property
  yields. Numbers are the integers: no branch of the hook looks at a number except through
  truthiness and conversion to a string. An object is the association list of its own
  properties, with distinct keys.
\<close>

datatype jsval =
    JUndefined
  | JNull
  | JBool bool
  | JNum int
  | JStr string
  | JArr "jsval list"
  | JObj "(string \<times> jsval) list"

text \<open>An \<^verbatim>\<open>Error\<close> instance: the name of its constructor and its message.\<close>

datatype js_error = JsError (err_name: string) (err_message: string)

text \<open>
  What a \<^verbatim>\<open>throw\<close> or a rejected promise carries: an \<^verbatim>\<open>Error\<close> instance
  (\<^verbatim>\<open>err instanceof Error\<close> holds) or any other value.
\<close>

datatype js_thrown = ThrownError js_error | ThrownOther jsval

definition new_Error :: "string \<Rightarrow> js_error" where
  "new_Error m = JsError ''Error'' m"

definition TypeError :: "string \<Rightarrow> js_thrown" where
  "TypeError m = ThrownError (JsError ''TypeError'' m)"

text \<open>Sequencing of steps that may throw: the first throw ends the sequence.\<close>

definition bindE :: "'e + 'a \<Rightarrow> ('a \<Rightarrow> 'e + 'b) \<Rightarrow> 'e + 'b" where
  "bindE m f = (case m of Inl e \<Rightarrow> Inl e | Inr x \<Rightarrow> f x)"

fun mapE :: "('a \<Rightarrow> 'e + 'b) \<Rightarrow> 'a list \<Rightarrow> 'e + 'b list" where
  "mapE f [] = Inr []"
| "mapE f (x # xs) = bindE (f x) (\<lambda>y. bindE (mapE f xs) (\<lambda>ys. Inr (y # ys)))"

text \<open>Truthiness, as \<^verbatim>\<open>||\<close>, \<^verbatim>\<open>&&\<close>, \<^verbatim>\<open>!\<close> and \<^verbatim>\<open>if\<close> test it.\<close>

fun truthy :: "jsval \<Rightarrow> bool" where
  "truthy JUndefined = False"
| "truthy JNull = False"
| "truthy (JBool b) = b"
| "truthy (JNum n) = (n \<noteq> 0)"
| "truthy (JStr s) = (s \<noteq> [])"
| "truthy (JArr xs) = True"
| "truthy (JObj kvs) = True"

text \<open>Conversion to a string, as a template literal and \<^verbatim>\<open>new Error(v)\<close> perform it.\<close>

fun show_nat :: "nat \<Rightarrow> string" where
  "show_nat n = (if n < 10 then [''0123456789'' ! n]
                 else show_nat (n div 10) @ [''0123456789'' ! (n mod 10)])"

declare show_nat.simps [simp del]

fun join_comma :: "string list \<Rightarrow> string" where
  "join_comma [] = []"
| "join_comma [s] = s"
| "join_comma (s # t # ss) = s @ '','' @ join_comma (t # ss)"

fun js_to_string :: "jsval \<Rightarrow> string" where
  "js_to_string JUndefined = ''undefined''"
| "js_to_string JNull = ''null''"
| "js_to_string (JBool b) = (if b then ''true'' else ''false'')"
| "js_to_string (JNum n) = (if n < 0 then ''-'' @ show_nat (nat (- n)) else show_nat (nat n))"
| "js_to_string (JStr s) = s"
| "js_to_string (JArr xs) =
     join_comma (map (\<lambda>x. if x = JUndefined \<or> x = JNull then [] else js_to_string x) xs)"
| "js_to_string (JObj kvs) = ''[object Object]''"

text \<open>
  Property access \<^verbatim>\<open>v.k\<close>, for the keys the hook reads (none of them is a built-in
  property of a string, a number or an array): it throws on \<^verbatim>\<open>undefined\<close> and
  \<^verbatim>\<open>null\<close>, and yields \<^verbatim>\<open>undefined\<close> where the property is absent.
\<close>

definition js_get :: "jsval \<Rightarrow> string \<Rightarrow> js_thrown + jsval" where
  "js_get v k =
     (case v of
        JUndefined \<Rightarrow>
          Inl (TypeError (''Cannot read properties of undefined (reading '' @ [CHR 0x27] @ k @ [CHR 0x27] @ '')''))
      | JNull \<Rightarrow>
          Inl (TypeError (''Cannot read properties of null (reading '' @ [CHR 0x27] @ k @ [CHR 0x27] @ '')''))
      | JObj kvs \<Rightarrow> Inr (case map_of kvs k of None \<Rightarrow> JUndefined | Some x \<Rightarrow> x)
      | _ \<Rightarrow> Inr JUndefined)"

text \<open>Optional chaining \<^verbatim>\<open>v?.k\<close>.\<close>

definition js_get_opt :: "jsval \<Rightarrow> string \<Rightarrow> js_thrown + jsval" where
  "js_get_opt v k = (if v = JUndefined \<or> v = JNull then Inr JUndefined else js_get v k)"

text \<open>
  \<^verbatim>\<open>v.includes(t)\<close> for a string \<open>t\<close>: membership in an array, a substring test on a
  string, a \<^verbatim>\<open>TypeError\<close> on anything else.
\<close>

definition is_substring :: "string \<Rightarrow> string \<Rightarrow> bool" where
  "is_substring t s = list_ex (\<lambda>i. take (length t) (drop i s) = t) [0..<Suc (length s)]"

definition js_includes :: "jsval \<Rightarrow> string \<Rightarrow> js_thrown + bool" where
  "js_includes v t =
     (case v of
        JArr xs \<Rightarrow> Inr (JStr t \<in> set xs)
      | JStr s \<Rightarrow> Inr (is_substring t s)
      | JUndefined \<Rightarrow>
          Inl (TypeError (''Cannot read properties of undefined (reading '' @ [CHR 0x27] @ ''includes'' @ [CHR 0x27] @ '')''))
      | JNull \<Rightarrow>
          Inl (TypeError (''Cannot read properties of null (reading '' @ [CHR 0x27] @ ''includes'' @ [CHR 0x27] @ '')''))
      | _ \<Rightarrow> Inl (TypeError ''comp.types.includes is not a function''))"

text \<open>
  \<^verbatim>\<open>String.prototype.trim\<close>. A \<open>char\<close> is a code unit below 256; among these,
  ECMAScript counts as white space or line terminator the tab, line feed, vertical tab,
  form feed, carriage return, space and no-break space (9 to 13, 32 and 160).
\<close>

definition js_whitespace :: "char \<Rightarrow> bool" where
  "js_whitespace ch = (of_char ch \<in> {9, 10, 11, 12, 13, 32, 160 :: nat})"

definition trim :: "string \<Rightarrow> string" where
  "trim s = rev (dropWhile js_whitespace (rev (dropWhile js_whitespace s)))"

section \<open>The transport\<close>

text \<open>
  \<^verbatim>\<open>fetch\<close> is the injected transport. A request is the URL and the options object the
  hook passes; the body is the object handed to \<^verbatim>\<open>JSON.stringify\<close>, which leaves out the
  properties that are \<^verbatim>\<open>undefined\<close>.
\<close>

record circle =
  latitude :: int
  longitude :: int
  radius :: "int option"

record request_body =
  body_input :: string
  body_languageCode :: string
  body_types :: "string list option"
  body_locationBias :: "circle option"

record request =
  url :: string
  http_method :: string
  headers :: "(string \<times> string) list"
  body :: "request_body option"

text \<open>
  A response: \<^verbatim>\<open>response.ok\<close>, \<^verbatim>\<open>response.status\<close>, and what awaiting
  \<^verbatim>\<open>response.json()\<close> gives (it rejects when the body is not JSON).
\<close>

record response =
  ok :: bool
  status :: nat
  json :: "js_thrown + jsval"

datatype fetch_outcome = Rejected js_thrown | Resolved response

section \<open>Options and state of the hook\<close>

record location_bias =
  lat :: int
  lng :: int
  bias_radius :: "int option"

record options =
  apiKey :: string
  debounceMs :: "nat option"
  language :: "string option"
  types :: "string list option"
  sessionToken :: "string option"
  location :: "location_bias option"

text \<open>The defaults of the destructured parameters: \<^verbatim>\<open>debounceMs = 300, language = 'en'\<close>.\<close>

definition debounce_ms :: "options \<Rightarrow> nat" where
  "debounce_ms c = (case debounceMs c of None \<Rightarrow> 300 | Some d \<Rightarrow> d)"

definition language_code :: "options \<Rightarrow> string" where
  "language_code c = (case language c of None \<Rightarrow> ''en'' | Some l \<Rightarrow> l)"

text \<open>
  \<^verbatim>\<open>...(sessionToken && { 'X-Goog-Api-Key': apiKey })\<close>: the spread adds the header when the
  token is a non-empty string, and nothing otherwise.
\<close>

definition session_headers :: "options \<Rightarrow> (string \<times> string) list" where
  "session_headers c =
     (case sessionToken c of
        None \<Rightarrow> []
      | Some t \<Rightarrow> if t \<noteq> [] then [(''X-Goog-Api-Key'', apiKey c)] else [])"

text \<open>The three \<^verbatim>\<open>useState\<close> cells.\<close>

record hook_state =
  predictions :: "jsval list"
  loading :: bool
  error :: "js_error option"

definition initial_state :: hook_state where
  "initial_state = \<lparr>predictions = [], loading = False, error = None\<rparr>"

definition setPredictions :: "jsval list \<Rightarrow> hook_state \<Rightarrow> hook_state" where
  "setPredictions p s = s\<lparr>predictions := p\<rparr>"

definition setLoading :: "bool \<Rightarrow> hook_state \<Rightarrow> hook_state" where
  "setLoading b s = s\<lparr>loading := b\<rparr>"

definition setError :: "js_error option \<Rightarrow> hook_state \<Rightarrow> hook_state" where
  "setError e s = s\<lparr>error := e\<rparr>"

text \<open>\<^verbatim>\<open>clear\<close> (index.ts, lines 23 to 26).\<close>

definition clear :: "hook_state \<Rightarrow> hook_state" where
  "clear s = setError None (setPredictions [] s)"

section \<open>search\<close>

text \<open>The request of lines 92 to 125.\<close>

definition autocomplete_request :: "options \<Rightarrow> string \<Rightarrow> request" where
  "autocomplete_request c input =
     \<lparr>url = ''https://places.googleapis.com/v1/places:autocomplete?key='' @ apiKey c,
      http_method = ''POST'',
      headers =
        [(''Content-Type'', ''application/json''),
         (''X-Goog-FieldMask'',
          ''suggestions.placePrediction.place,suggestions.placePrediction.placeId,suggestions.placePrediction.text,suggestions.placePrediction.structuredFormat,suggestions.placePrediction.types'')]
        @ session_headers c,
      body = Some
        \<lparr>body_input = input,
         body_languageCode = language_code c,
         body_types = types c,
         body_locationBias =
           (case location c of
              None \<Rightarrow> None
            | Some l \<Rightarrow> Some \<lparr>latitude = lat l, longitude = lng l, radius = bias_radius l\<rparr>)\<rparr>\<rparr>"

text \<open>
  The part of \<^verbatim>\<open>search\<close> that runs before \<^verbatim>\<open>await fetch(...)\<close> (lines 82 to 125): the
  new state, and the request handed to the transport, if any.
\<close>

definition search_start :: "options \<Rightarrow> string \<Rightarrow> hook_state \<Rightarrow> hook_state \<times> request option" where
  "search_start c input s =
     (if trim input = [] then (clear s, None)
      else (setError None (setLoading True s), Some (autocomplete_request c input)))"

text \<open>
  \<^verbatim>\<open>errorData.error?.message || `HTTP error! status: ${response.status}`\<close>, the message of
  the error thrown on a status that is not a success (lines 52, 53 and 128, 129).
\<close>

definition http_error_message :: "nat \<Rightarrow> jsval \<Rightarrow> js_thrown + string" where
  "http_error_message st errorData =
     bindE (js_get errorData ''error'') (\<lambda>e.
     bindE (js_get_opt e ''message'') (\<lambda>m.
       Inr (if truthy m then js_to_string m else ''HTTP error! status: '' @ show_nat st)))"

text \<open>\<^verbatim>\<open>data.suggestions.map(suggestion => suggestion.placePrediction) || []\<close> (line 134).\<close>

definition map_suggestions :: "jsval \<Rightarrow> js_thrown + jsval list" where
  "map_suggestions data =
     bindE (js_get data ''suggestions'') (\<lambda>suggestions.
       case suggestions of
         JArr xs \<Rightarrow>
           bindE (mapE (\<lambda>suggestion. js_get suggestion ''placePrediction'') xs) (\<lambda>ps.
             Inr (if truthy (JArr ps) then ps else []))
       | JUndefined \<Rightarrow>
           Inl (TypeError (''Cannot read properties of undefined (reading '' @ [CHR 0x27] @ ''map'' @ [CHR 0x27] @ '')''))
       | JNull \<Rightarrow>
           Inl (TypeError (''Cannot read properties of null (reading '' @ [CHR 0x27] @ ''map'' @ [CHR 0x27] @ '')''))
       | _ \<Rightarrow> Inl (TypeError ''data.suggestions.map is not a function''))"

text \<open>
  The rest of the \<^verbatim>\<open>try\<close> block, from the settling of \<^verbatim>\<open>fetch\<close> on (lines 113 to 134):
  it throws, or reaches \<^verbatim>\<open>setPredictions\<close> with the mapped suggestions.
\<close>

definition search_try :: "fetch_outcome \<Rightarrow> hook_state \<Rightarrow> js_thrown + hook_state" where
  "search_try outcome s =
     (case outcome of
        Rejected t \<Rightarrow> Inl t
      | Resolved r \<Rightarrow>
          if \<not> ok r then
            bindE (json r) (\<lambda>errorData.
            bindE (http_error_message (status r) errorData) (\<lambda>m.
              Inl (ThrownError (new_Error m))))
          else
            bindE (json r) (\<lambda>data.
            bindE (map_suggestions data) (\<lambda>ps.
              Inr (setPredictions ps s))))"

text \<open>
  \<^verbatim>\<open>catch\<close> and \<^verbatim>\<open>finally\<close> (lines 135 to 140). The first component is the exception
  that leaves \<^verbatim>\<open>search\<close>, if any.
\<close>

definition search_settle :: "fetch_outcome \<Rightarrow> hook_state \<Rightarrow> js_thrown option \<times> hook_state" where
  "search_settle outcome s =
     (let (escaped, s1) =
        (case search_try outcome s of
           Inr s' \<Rightarrow> (None, s')
         | Inl err \<Rightarrow>
             (None,
              setPredictions []
                (setError (Some (case err of ThrownError e \<Rightarrow> e
                                 | ThrownOther v \<Rightarrow> new_Error ''An error occurred'')) s)))
      in (escaped, setLoading False s1))"

text \<open>
  \<^verbatim>\<open>search\<close> run to its end against a transport: the calls made to the transport, the
  exception that escapes, and the final state.
\<close>

definition search ::
  "options \<Rightarrow> (request \<Rightarrow> fetch_outcome) \<Rightarrow> string \<Rightarrow> hook_state
    \<Rightarrow> request list \<times> js_thrown option \<times> hook_state" where
  "search c fetch input s =
     (case search_start c input s of
        (s1, None) \<Rightarrow> ([], None, s1)
      | (s1, Some req) \<Rightarrow> ([req], search_settle (fetch req) s1))"

section \<open>getPlaceDetails\<close>

record place_details =
  placeId :: string
  formattedAddress :: jsval
  addressComponents :: "jsval list"
  place_location :: jsval
  streetNumber :: jsval
  streetName :: jsval
  city :: jsval
  state :: jsval
  country :: jsval
  postalCode :: jsval

text \<open>
  \<^verbatim>\<open>components.find(comp => comp.types.includes(type))\<close>: the first component the test
  accepts; a throw of the test on an earlier component ends the scan.
\<close>

fun find_component :: "jsval list \<Rightarrow> string \<Rightarrow> js_thrown + jsval" where
  "find_component [] t = Inr JUndefined"
| "find_component (cmp # comps) t =
     bindE (bindE (js_get cmp ''types'') (\<lambda>ts. js_includes ts t)) (\<lambda>b.
       if b then Inr cmp else find_component comps t)"

text \<open>\<^verbatim>\<open>extractAddressComponent\<close> (lines 28 to 34).\<close>

definition extractAddressComponent :: "jsval \<Rightarrow> string \<Rightarrow> js_thrown + jsval" where
  "extractAddressComponent components t =
     (case components of
        JArr comps \<Rightarrow> bindE (find_component comps t) (\<lambda>component. js_get_opt component ''longText'')
      | JUndefined \<Rightarrow>
          Inl (TypeError (''Cannot read properties of undefined (reading '' @ [CHR 0x27] @ ''find'' @ [CHR 0x27] @ '')''))
      | JNull \<Rightarrow>
          Inl (TypeError (''Cannot read properties of null (reading '' @ [CHR 0x27] @ ''find'' @ [CHR 0x27] @ '')''))
      | _ \<Rightarrow> Inl (TypeError ''components.find is not a function''))"

text \<open>The request of lines 39 to 49.\<close>

definition details_request :: "options \<Rightarrow> string \<Rightarrow> request" where
  "details_request c pid =
     \<lparr>url = ''https://places.googleapis.com/v1/places/'' @ pid @ ''?key='' @ apiKey c
              @ ''&languageCode='' @ language_code c,
      http_method = ''GET'',
      headers =
        [(''Content-Type'', ''application/json''),
         (''X-Goog-FieldMask'', ''formattedAddress,addressComponents,location'')]
        @ session_headers c,
      body = None\<rparr>"

text \<open>The \<^verbatim>\<open>try\<close> block from the settling of \<^verbatim>\<open>fetch\<close> on (lines 39 to 70).\<close>

definition details_try :: "string \<Rightarrow> fetch_outcome \<Rightarrow> js_thrown + place_details" where
  "details_try pid outcome =
     (case outcome of
        Rejected t \<Rightarrow> Inl t
      | Resolved r \<Rightarrow>
          if \<not> ok r then
            bindE (json r) (\<lambda>errorData.
            bindE (http_error_message (status r) errorData) (\<lambda>m.
              Inl (ThrownError (new_Error m))))
          else
            bindE (json r) (\<lambda>data.
            bindE (js_get data ''addressComponents'') (\<lambda>ac.
            let components = (if truthy ac then ac else JArr []) in
            bindE (js_get data ''formattedAddress'') (\<lambda>fa.
            bindE (js_get data ''location'') (\<lambda>loc.
            bindE (extractAddressComponent components ''street_number'') (\<lambda>sn.
            bindE (extractAddressComponent components ''route'') (\<lambda>rt.
            bindE (extractAddressComponent components ''locality'') (\<lambda>ci.
            bindE (extractAddressComponent components ''administrative_area_level_1'') (\<lambda>st.
            bindE (extractAddressComponent components ''country'') (\<lambda>co.
            bindE (extractAddressComponent components ''postal_code'') (\<lambda>pc.
              Inr \<lparr>placeId = pid,
                   formattedAddress = fa,
                   addressComponents = (case components of JArr comps \<Rightarrow> comps | _ \<Rightarrow> []),
                   place_location = loc,
                   streetNumber = sn,
                   streetName = rt,
                   city = ci,
                   state = st,
                   country = co,
                   postalCode = pc\<rparr>)))))))))))"

text \<open>
  The \<^verbatim>\<open>catch\<close> of lines 71 to 75 throws again: the promise of \<^verbatim>\<open>getPlaceDetails\<close>
  rejects with an \<^verbatim>\<open>Error\<close> instance or resolves with the details.
\<close>

definition details_settle :: "string \<Rightarrow> fetch_outcome \<Rightarrow> js_error + place_details" where
  "details_settle pid outcome =
     (case details_try pid outcome of
        Inr d \<Rightarrow> Inr d
      | Inl err \<Rightarrow>
          Inl (case err of ThrownError e \<Rightarrow> e
               | ThrownOther v \<Rightarrow> new_Error ''An error occurred while fetching place details''))"

text \<open>
  \<^verbatim>\<open>getPlaceDetails\<close> (lines 36 to 78) against a transport: the calls made to the
  transport, and the outcome.
\<close>

definition getPlaceDetails ::
  "options \<Rightarrow> (request \<Rightarrow> fetch_outcome) \<Rightarrow> string \<Rightarrow> request list \<times> (js_error + place_details)" where
  "getPlaceDetails c fetch pid =
     ([details_request c pid], details_settle pid (fetch (details_request c pid)))"

section \<open>The debounced search on the event loop\<close>

text \<open>
  The hook runs on a single-threaded event loop. A world holds the three state cells, the
  \<^verbatim>\<open>debounceTimer\<close> ref, the timeouts that are armed (neither fired nor cleared), the
  clock in milliseconds, every call made to the transport (oldest first), the positions of
  the calls that have not settled yet, the exceptions that left a timer callback, and
  whether the component is still mounted.
  A timer handle is always truthy (a positive number in a browser, an object in Node).
\<close>

record timer =
  handle :: nat
  due :: nat
  timer_input :: string

record world =
  hook :: hook_state
  debounceTimer :: "nat option"
  timers :: "timer list"
  next_handle :: nat
  clock :: nat
  net_log :: "request list"
  in_flight :: "nat list"
  uncaught :: "js_thrown list"
  mounted :: bool

definition initial_world :: world where
  "initial_world =
     \<lparr>hook = initial_state, debounceTimer = None, timers = [], next_handle = 1, clock = 0,
      net_log = [], in_flight = [], uncaught = [], mounted = True\<rparr>"

text \<open>
  The state cells are what a reader of the hook sees. While the component is mounted, the
  setter calls of the hook write the cells; React drops the update of a component that has
  unmounted, so after the unmount a setter call changes nothing that is read. The hook
  itself holds no flag for this: it calls its setters all the same.
\<close>

definition commit :: "hook_state \<Rightarrow> world \<Rightarrow> world" where
  "commit s1 w = (if mounted w then w\<lparr>hook := s1\<rparr> else w)"

definition clearTimeout :: "nat \<Rightarrow> world \<Rightarrow> world" where
  "clearTimeout h w = w\<lparr>timers := filter (\<lambda>t. handle t \<noteq> h) (timers w)\<rparr>"

text \<open>\<^verbatim>\<open>setTimeout\<close> with a callback that captured \<open>input\<close>: the new handle and the world.\<close>

definition setTimeout :: "string \<Rightarrow> nat \<Rightarrow> world \<Rightarrow> nat \<times> world" where
  "setTimeout input delay w =
     (next_handle w,
      w\<lparr>timers := timers w @ [\<lparr>handle = next_handle w, due = clock w + delay, timer_input = input\<rparr>],
        next_handle := Suc (next_handle w)\<rparr>)"

text \<open>\<^verbatim>\<open>debouncedSearch\<close> (lines 145 to 159).\<close>

definition debouncedSearch :: "options \<Rightarrow> string \<Rightarrow> world \<Rightarrow> world" where
  "debouncedSearch c input w =
     (let w1 = (case debounceTimer w of None \<Rightarrow> w | Some h \<Rightarrow> clearTimeout h w);
          (h, w2) = setTimeout input (debounce_ms c) w1
      in w2\<lparr>debounceTimer := Some h\<rparr>)"

text \<open>
  The timer callback \<^verbatim>\<open>async () => { await search(input); resolve(); }\<close> up to the point
  where \<^verbatim>\<open>search\<close> awaits the transport. The promise that \<^verbatim>\<open>debouncedSearch\<close>
  returned resolves once that \<^verbatim>\<open>search\<close> has settled; it has no \<^verbatim>\<open>reject\<close>, and
  nothing in the hook reads it.
\<close>

definition timer_callback :: "options \<Rightarrow> string \<Rightarrow> world \<Rightarrow> world" where
  "timer_callback c input w =
     (case search_start c input (hook w) of
        (s1, None) \<Rightarrow> commit s1 w
      | (s1, Some req) \<Rightarrow>
          (commit s1 w)\<lparr>net_log := net_log w @ [req],
            in_flight := in_flight w @ [length (net_log w)]\<rparr>)"

text \<open>
  Time passes by \<open>d\<close> milliseconds: the timeouts that are due fire, earliest first. A
  callback neither arms nor clears a timeout, so the due ones are taken at once.
\<close>

definition elapse :: "options \<Rightarrow> nat \<Rightarrow> world \<Rightarrow> world" where
  "elapse c d w =
     (let now = clock w + d;
          fired = sort_key due (filter (\<lambda>t. due t \<le> now) (timers w));
          w1 = w\<lparr>clock := now, timers := filter (\<lambda>t. \<not> due t \<le> now) (timers w)\<rparr>
      in foldl (\<lambda>w' t. timer_callback c (timer_input t) w') w1 fired)"

text \<open>
  The call at position \<open>i\<close> of the log settles with \<open>outcome\<close>: \<^verbatim>\<open>search\<close> resumes after
  its \<^verbatim>\<open>await\<close> and calls its setters, which write the cells while the component
  is mounted.
\<close>

definition settle :: "nat \<Rightarrow> fetch_outcome \<Rightarrow> world \<Rightarrow> world" where
  "settle i outcome w =
     (if i \<in> set (in_flight w) then
        (case search_settle outcome (hook w) of
           (escaped, s1) \<Rightarrow>
             (commit s1 w)\<lparr>in_flight := removeAll i (in_flight w),
               uncaught := uncaught w @ (case escaped of None \<Rightarrow> [] | Some t \<Rightarrow> [t])\<rparr>)
      else w)"

text \<open>The cleanup of the effect (lines 161 to 167).\<close>

definition cleanup :: "world \<Rightarrow> world" where
  "cleanup w = (case debounceTimer w of None \<Rightarrow> w | Some h \<Rightarrow> clearTimeout h w)"

text \<open>The component unmounts: React runs the cleanup, and the component is gone.\<close>

definition unmount :: "world \<Rightarrow> world" where
  "unmount w = (cleanup w)\<lparr>mounted := False\<rparr>"

text \<open>
  What can happen to a hook: the caller calls the returned \<^verbatim>\<open>search\<close> (which is
  \<^verbatim>\<open>debouncedSearch\<close>) or \<^verbatim>\<open>clear\<close>, time passes, a call in flight settles, the
  component unmounts.
\<close>

datatype event =
    Search string
  | Clear
  | Elapse nat
  | Settle nat fetch_outcome
  | Unmount

fun step :: "options \<Rightarrow> world \<Rightarrow> event \<Rightarrow> world" where
  "step c w (Search input) = debouncedSearch c input w"
| "step c w Clear = commit (clear (hook w)) w"
| "step c w (Elapse d) = elapse c d w"
| "step c w (Settle i outcome) = settle i outcome w"
| "step c w Unmount = unmount w"

definition run :: "options \<Rightarrow> event list \<Rightarrow> world \<Rightarrow> world" where
  "run c evs w = foldl (step c) w evs"

text \<open>
  A burst of calls to the debounced search: a first query, then pairs of the time since
  the previous call and the next query.
\<close>

definition burst :: "string \<Rightarrow> (nat \<times> string) list \<Rightarrow> event list" where
  "burst q rest = Search q # concat (map (\<lambda>(g, q'). [Elapse g, Search q']) rest)"

text \<open>The events in which the caller calls the debounced search.\<close>

fun is_call :: "event \<Rightarrow> bool" where
  "is_call (Search input) = True"
| "is_call ev = False"

section \<open>The query text and the status tag\<close>

text \<open>
  The hook of src/src/index.ts keeps three cells: predictions, loading and error. The
  result type of src/src/types.ts and the tests of src/src/index.test.ts speak of two more,
  \<^verbatim>\<open>value\<close> and \<^verbatim>\<open>suggestions.status\<close>, and of \<^verbatim>\<open>clearSuggestions\<close>; the hook
  that has them is not among the sources.
\<close>

datatype status_tag = StatusLoading | StatusOkWithResults | StatusOkEmpty | StatusError

text \<open>
  Modelled from the spec: SearchState (section 3), the state of the hook that keeps the
  query text and the status tag, which is missing from the sources: the current query
  text, a status tag (one of "loading", "ok-with-results", "ok-empty", "error"), the
  prediction sequence, the loading flag and the last error.
\<close>

record search_state = hook_state +
  query_text :: string
  search_status :: status_tag

text \<open>
  Modelled from the spec: \<^verbatim>\<open>clearSuggestions\<close> of the hook that keeps the query text
  and the status tag, which is missing from the sources (section 8, property 10): it
  "resets query text to empty, predictions to empty, status to the empty variant, and
  error to none".
\<close>

definition clearSuggestions :: "search_state \<Rightarrow> search_state" where
  "clearSuggestions ss =
     ss\<lparr>query_text := [], predictions := [], search_status := StatusOkEmpty, error := None\<rparr>"

section \<open>Reading a well-formed body\<close>

text \<open>The property \<open>k\<close> of a value that is neither \<^verbatim>\<open>undefined\<close> nor \<^verbatim>\<open>null\<close>.\<close>

definition js_prop :: "jsval \<Rightarrow> string \<Rightarrow> jsval" where
  "js_prop v k =
     (case v of
        JObj kvs \<Rightarrow> (case map_of kvs k of None \<Rightarrow> JUndefined | Some x \<Rightarrow> x)
      | _ \<Rightarrow> JUndefined)"

text \<open>
  An address component as \<^verbatim>\<open>AddressComponent\<close> (src/src/types.ts) declares it: an
  object whose \<^verbatim>\<open>types\<close> is an array.
\<close>

definition is_component :: "jsval \<Rightarrow> bool" where
  "is_component v =
     (case v of
        JObj kvs \<Rightarrow> (case map_of kvs ''types'' of Some (JArr ts) \<Rightarrow> True | _ \<Rightarrow> False)
      | _ \<Rightarrow> False)"

text \<open>
  The derived field as the specification words it: the long text of the first component
  whose set of category tags contains the tag, \<^verbatim>\<open>undefined\<close> when there is none.
\<close>

definition has_tag :: "string \<Rightarrow> jsval \<Rightarrow> bool" where
  "has_tag tag v = (case js_prop v ''types'' of JArr ts \<Rightarrow> JStr tag \<in> set ts | _ \<Rightarrow> False)"

definition first_longText :: "jsval list \<Rightarrow> string \<Rightarrow> jsval" where
  "first_longText comps tag =
     (case List.find (has_tag tag) comps of
        None \<Rightarrow> JUndefined
      | Some cmp \<Rightarrow> js_prop cmp ''longText'')"

section \<open>Invariants of the event loop\<close>

text \<open>Every armed timeout is the one the ref points to.\<close>

definition timers_owned :: "world \<Rightarrow> bool" where
  "timers_owned w = (\<forall>t\<in>set (timers w). debounceTimer w = Some (handle t))"

text \<open>While the component is mounted, the loading flag is set only while a call is in flight.\<close>

definition loading_in_flight :: "world \<Rightarrow> bool" where
  "loading_in_flight w = (mounted w \<longrightarrow> loading (hook w) \<longrightarrow> in_flight w \<noteq> [])"

text \<open>
  Exactly one timeout is armed: it was armed at the present time for the query \<open>q\<close>, and
  the ref points to it.
\<close>

definition armed :: "options \<Rightarrow> world \<Rightarrow> string \<Rightarrow> bool" where
  "armed c w q =
     (case timers w of
        [t] \<Rightarrow> due t = clock w + debounce_ms c \<and> timer_input t = q
                \<and> debounceTimer w = Some (handle t)
      | _ \<Rightarrow> False)"

section \<open>Sample inputs\<close>

definition sample_options :: options where
  "sample_options =
     \<lparr>apiKey = ''K'', debounceMs = None, language = None, types = None,
      sessionToken = None, location = None\<rparr>"

definition ok_response :: "jsval \<Rightarrow> fetch_outcome" where
  "ok_response b = Resolved \<lparr>ok = True, status = 200, json = Inr b\<rparr>"

definition error_response :: "nat \<Rightarrow> jsval \<Rightarrow> fetch_outcome" where
  "error_response st b = Resolved \<lparr>ok = False, status = st, json = Inr b\<rparr>"

section \<open>Properties\<close>

subsection \<open>Auxiliary facts\<close>

lemma bindE_Inr [simp]: "bindE (Inr x) f = f x"
  by (simp add: bindE_def)

lemma bindE_Inl [simp]: "bindE (Inl e) f = Inl e"
  by (simp add: bindE_def)

lemma js_get_defined: "v \<noteq> JUndefined \<Longrightarrow> v \<noteq> JNull \<Longrightarrow> js_get v k = Inr (js_prop v k)"
  by (cases v) (simp_all add: js_get_def js_prop_def)

lemma js_get_JObj [simp]: "js_get (JObj kvs) k = Inr (js_prop (JObj kvs) k)"
  by (simp add: js_get_defined)

lemma mapE_get:
  "\<forall>x\<in>set xs. x \<noteq> JUndefined \<and> x \<noteq> JNull \<Longrightarrow>
   mapE (\<lambda>x. js_get x k) xs = Inr (map (\<lambda>x. js_prop x k) xs)"
  by (induction xs) (simp_all add: js_get_defined)

text \<open>\<^verbatim>\<open>!input.trim()\<close> holds exactly of the strings made of white space only.\<close>

lemma trim_empty_iff: "trim s = [] \<longleftrightarrow> (\<forall>ch\<in>set s. js_whitespace ch)"
proof
  assume "trim s = []"
  then have all: "\<forall>ch\<in>set (dropWhile js_whitespace s). js_whitespace ch"
    by (simp add: trim_def dropWhile_eq_Nil_conv)
  have "dropWhile js_whitespace s = []"
  proof (rule ccontr)
    assume ne: "dropWhile js_whitespace s \<noteq> []"
    then have "\<not> js_whitespace (hd (dropWhile js_whitespace s))"
      by (rule hd_dropWhile)
    moreover have "hd (dropWhile js_whitespace s) \<in> set (dropWhile js_whitespace s)"
      using ne by simp
    ultimately show False using all by blast
  qed
  then show "\<forall>ch\<in>set s. js_whitespace ch"
    by (simp add: dropWhile_eq_Nil_conv)
next
  assume "\<forall>ch\<in>set s. js_whitespace ch"
  then have "dropWhile js_whitespace s = []"
    by (simp add: dropWhile_eq_Nil_conv)
  then show "trim s = []"
    by (simp add: trim_def del: dropWhile_eq_Nil_conv)
qed

lemma run_Nil [simp]: "run c [] w = w"
  by (simp add: run_def)

lemma run_Cons [simp]: "run c (ev # evs) w = run c evs (step c w ev)"
  by (simp add: run_def)

lemma run_append [simp]: "run c (evs @ evs') w = run c evs' (run c evs w)"
  by (simp add: run_def)

text \<open>The equations that evaluate the hook on a concrete input.\<close>

lemmas eval_search =
  search_def search_start_def search_settle_def search_try_def map_suggestions_def
  http_error_message_def js_get_opt_def js_prop_def trim_def js_whitespace_def
  setPredictions_def setError_def setLoading_def clear_def new_Error_def TypeError_def
  sample_options_def ok_response_def error_response_def initial_state_def

lemmas eval_world =
  run_def debouncedSearch_def setTimeout_def clearTimeout_def elapse_def timer_callback_def
  settle_def unmount_def cleanup_def commit_def initial_world_def debounce_ms_def burst_def

subsection \<open>Empty input\<close>

text \<open>
  Claim C7. For every query that is empty or made of white space only, \<^verbatim>\<open>search\<close> makes
  no call to the transport, lets no exception escape, and leaves the cleared state: the
  prediction sequence is empty and the error is none (the loading flag is not touched).
\<close>

theorem search_blank_short_circuit:
  assumes "\<forall>ch\<in>set input. js_whitespace ch"
  shows "search c fetch input s = ([], None, s\<lparr>predictions := [], error := None\<rparr>)"
  using assms
  by (simp add: search_def search_start_def trim_empty_iff [symmetric] clear_def
      setError_def setPredictions_def)

theorem search_blank_short_circuit_witness:
  "search sample_options (\<lambda>req. Rejected (ThrownOther JNull)) [CHR '' '', CHR 0x09]
     \<lparr>predictions = [JStr ''old''], loading = False, error = Some (JsError ''Error'' ''old'')\<rparr>
   = ([], None, \<lparr>predictions = [], loading = False, error = None\<rparr>)"
  using search_blank_short_circuit
    [where input = "[CHR '' '', CHR 0x09]" and c = sample_options
       and fetch = "\<lambda>req. Rejected (ThrownOther JNull)"
       and s = "\<lparr>predictions = [JStr ''old''], loading = False,
                  error = Some (JsError ''Error'' ''old'')\<rparr>"]
  by (simp add: js_whitespace_def)

subsection \<open>The loading flag\<close>

text \<open>
  Claim C8. Whenever \<^verbatim>\<open>search\<close> hands a request to the transport, it has set loading
  to true before; for every query that is not empty once trimmed it does hand over a
  request; and loading is false once the call has settled, whatever the outcome (success,
  failure status, transport failure, malformed body).
\<close>

theorem search_loading_lifecycle:
  "(snd (search_start c input s) \<noteq> None \<longrightarrow> loading (fst (search_start c input s)))
   \<and> (trim input \<noteq> [] \<longrightarrow>
        search_start c input s =
          (s\<lparr>loading := True, error := None\<rparr>, Some (autocomplete_request c input)))
   \<and> \<not> loading (snd (search_settle outcome s'))
   \<and> (trim input \<noteq> [] \<longrightarrow>
        fst (search c fetch input s) = [autocomplete_request c input]
        \<and> \<not> loading (snd (snd (search c fetch input s))))"
  by (simp add: search_def search_start_def search_settle_def setLoading_def setError_def
      split: sum.splits prod.splits)

theorem search_loading_lifecycle_witness:
  "search_start sample_options ''test'' initial_state =
     (\<lparr>predictions = [], loading = True, error = None\<rparr>,
      Some (autocomplete_request sample_options ''test''))
   \<and> \<not> loading (snd (search_settle (Rejected (ThrownOther JNull))
        \<lparr>predictions = [], loading = True, error = None\<rparr>))
   \<and> \<not> loading (snd (snd (search sample_options (\<lambda>req. Rejected (ThrownOther JNull))
        ''test'' initial_state)))"
  using search_loading_lifecycle
    [where c = sample_options and input = "''test''" and s = initial_state
       and outcome = "Rejected (ThrownOther JNull)"
       and s' = "\<lparr>predictions = [], loading = True, error = None\<rparr>"
       and fetch = "\<lambda>req. Rejected (ThrownOther JNull)"]
  by (simp add: trim_def js_whitespace_def initial_state_def)

subsection \<open>Failures of search\<close>

lemma search_settle_failure:
  "search_try outcome s = Inl t \<Longrightarrow>
   search_settle outcome s =
     (None, s\<lparr>predictions := [], loading := False,
              error := Some (case t of ThrownError e \<Rightarrow> e
                             | ThrownOther v \<Rightarrow> new_Error ''An error occurred'')\<rparr>)"
  by (simp add: search_settle_def setPredictions_def setError_def setLoading_def)

lemma search_try_not_ok:
  "\<not> ok r \<Longrightarrow> \<exists>t. search_try (Resolved r) s = Inl t"
  by (simp add: search_try_def bindE_def split: sum.splits)

lemma http_error_message_object:
  "http_error_message st (JObj kvs) =
     Inr (if truthy (js_prop (js_prop (JObj kvs) ''error'') ''message'')
          then js_to_string (js_prop (js_prop (JObj kvs) ''error'') ''message'')
          else ''HTTP error! status: '' @ show_nat st)"
proof (cases "js_prop (JObj kvs) ''error'' = JUndefined \<or> js_prop (JObj kvs) ''error'' = JNull")
  case True
  then show ?thesis
    by (auto simp: http_error_message_def js_get_opt_def js_prop_def [of JUndefined]
        js_prop_def [of JNull])
next
  case False
  then show ?thesis
    by (simp add: http_error_message_def js_get_opt_def js_get_defined)
qed

lemma map_suggestions_missing:
  "js_prop data ''suggestions'' = JUndefined \<Longrightarrow>
   \<exists>m. map_suggestions data = Inl (TypeError m)"
  by (cases "data = JUndefined \<or> data = JNull")
    (auto simp: map_suggestions_def js_get_defined, auto simp: js_get_def)

lemma search_settle_uncaught: "fst (search_settle outcome s) = None"
  by (simp add: search_settle_def split: sum.splits prod.splits)

lemma timer_callback_frame:
  "timers (timer_callback c q w) = timers w
   \<and> debounceTimer (timer_callback c q w) = debounceTimer w
   \<and> clock (timer_callback c q w) = clock w
   \<and> uncaught (timer_callback c q w) = uncaught w
   \<and> mounted (timer_callback c q w) = mounted w"
  by (simp add: timer_callback_def commit_def split: prod.splits option.splits)

lemma callbacks_frame:
  "timers (foldl (\<lambda>w' t. timer_callback c (timer_input t) w') w ts) = timers w
   \<and> debounceTimer (foldl (\<lambda>w' t. timer_callback c (timer_input t) w') w ts) = debounceTimer w
   \<and> clock (foldl (\<lambda>w' t. timer_callback c (timer_input t) w') w ts) = clock w
   \<and> uncaught (foldl (\<lambda>w' t. timer_callback c (timer_input t) w') w ts) = uncaught w
   \<and> mounted (foldl (\<lambda>w' t. timer_callback c (timer_input t) w') w ts) = mounted w"
  by (induction ts arbitrary: w) (simp_all add: timer_callback_frame)

lemma uncaught_step: "uncaught (step c w ev) = uncaught w"
proof (cases ev)
  case (Search q)
  then show ?thesis
    by (cases "debounceTimer w") (simp_all add: debouncedSearch_def setTimeout_def clearTimeout_def)
next
  case (Elapse d)
  then show ?thesis by (simp add: elapse_def Let_def callbacks_frame)
next
  case (Settle i outcome)
  then show ?thesis
    using search_settle_uncaught [of outcome "hook w"]
    by (auto simp: settle_def commit_def split: prod.splits)
next
  case Unmount
  then show ?thesis
    by (cases "debounceTimer w") (simp_all add: unmount_def cleanup_def clearTimeout_def)
qed (simp add: commit_def)

lemma uncaught_run: "uncaught (run c evs w) = uncaught w"
  by (induction evs arbitrary: w) (simp_all add: uncaught_step)

text \<open>
  Claim C4, as the hook has it. For every query that is not empty once trimmed, any failure
  of \<^verbatim>\<open>search\<close> sets the error, empties the prediction sequence and lets no exception
  escape, from \<^verbatim>\<open>search\<close> or from a timer callback of the debounced path. A raised
  \<^verbatim>\<open>Error\<close> instance is surfaced as the same value; any other raised value is replaced
  by the generic \<^verbatim>\<open>Error('An error occurred')\<close>. On a status that is not a success,
  with a JSON object as body, the message is \<^verbatim>\<open>error.message\<close> when that is a non-empty
  string, and is made from the status code when \<^verbatim>\<open>error\<close> or \<^verbatim>\<open>error.message\<close>
  is absent or the message is the empty string. A success body without
  \<^verbatim>\<open>suggestions\<close> gives a \<^verbatim>\<open>TypeError\<close>.
\<close>

theorem search_failure_sets_error:
  assumes "trim input \<noteq> []"
  shows
    "(fetch (autocomplete_request c input) = Rejected t \<longrightarrow>
        search c fetch input s =
          ([autocomplete_request c input], None,
           s\<lparr>predictions := [], loading := False,
             error := Some (case t of ThrownError e \<Rightarrow> e
                            | ThrownOther v \<Rightarrow> new_Error ''An error occurred'')\<rparr>))
   \<and> (fetch (autocomplete_request c input) = Resolved r \<and> \<not> ok r \<longrightarrow>
        (\<exists>e. search c fetch input s =
          ([autocomplete_request c input], None,
           s\<lparr>predictions := [], loading := False, error := Some e\<rparr>)))
   \<and> (fetch (autocomplete_request c input) = Resolved r \<and> \<not> ok r \<and> json r = Inr (JObj kvs)
        \<and> map_of kvs ''error'' = Some (JObj es) \<and> map_of es ''message'' = Some (JStr m)
        \<and> m \<noteq> [] \<longrightarrow>
        error (snd (snd (search c fetch input s))) = Some (new_Error m))
   \<and> (fetch (autocomplete_request c input) = Resolved r \<and> \<not> ok r \<and> json r = Inr (JObj kvs)
        \<and> (map_of kvs ''error'' = None
            \<or> map_of kvs ''error'' = Some (JObj es)
               \<and> (map_of es ''message'' = None \<or> map_of es ''message'' = Some (JStr []))) \<longrightarrow>
        error (snd (snd (search c fetch input s)))
          = Some (new_Error (''HTTP error! status: '' @ show_nat (status r))))
   \<and> (fetch (autocomplete_request c input) = Resolved r \<and> ok r \<and> json r = Inr data
        \<and> js_prop data ''suggestions'' = JUndefined \<longrightarrow>
        (\<exists>msg. search c fetch input s =
          ([autocomplete_request c input], None,
           s\<lparr>predictions := [], loading := False, error := Some (JsError ''TypeError'' msg)\<rparr>)))
   \<and> uncaught (run c evs initial_world) = []"
proof -
  have start: "search_start c input s0 =
      (s0\<lparr>loading := True, error := None\<rparr>, Some (autocomplete_request c input))" for s0
    using assms by (simp add: search_start_def setError_def setLoading_def)
  have p1: "fetch (autocomplete_request c input) = Rejected t \<longrightarrow>
        search c fetch input s =
          ([autocomplete_request c input], None,
           s\<lparr>predictions := [], loading := False,
             error := Some (case t of ThrownError e \<Rightarrow> e
                            | ThrownOther v \<Rightarrow> new_Error ''An error occurred'')\<rparr>)"
    by (simp add: search_def start search_settle_failure search_try_def)
  have p2: "fetch (autocomplete_request c input) = Resolved r \<and> \<not> ok r \<longrightarrow>
        (\<exists>e. search c fetch input s =
          ([autocomplete_request c input], None,
           s\<lparr>predictions := [], loading := False, error := Some e\<rparr>))"
  proof
    assume a: "fetch (autocomplete_request c input) = Resolved r \<and> \<not> ok r"
    then obtain t' where "search_try (Resolved r) (s\<lparr>loading := True, error := None\<rparr>) = Inl t'"
      using search_try_not_ok by blast
    then show "\<exists>e. search c fetch input s =
          ([autocomplete_request c input], None,
           s\<lparr>predictions := [], loading := False, error := Some e\<rparr>)"
      using a by (auto simp: search_def start search_settle_failure)
  qed
  have p3: "fetch (autocomplete_request c input) = Resolved r \<and> \<not> ok r \<and> json r = Inr (JObj kvs)
        \<and> map_of kvs ''error'' = Some (JObj es) \<and> map_of es ''message'' = Some (JStr m)
        \<and> m \<noteq> [] \<longrightarrow>
        error (snd (snd (search c fetch input s))) = Some (new_Error m)"
    by (simp add: search_def start search_settle_def search_try_def http_error_message_object
        js_prop_def setPredictions_def setError_def setLoading_def)
  have p4: "fetch (autocomplete_request c input) = Resolved r \<and> \<not> ok r \<and> json r = Inr (JObj kvs)
        \<and> (map_of kvs ''error'' = None
            \<or> map_of kvs ''error'' = Some (JObj es)
               \<and> (map_of es ''message'' = None \<or> map_of es ''message'' = Some (JStr []))) \<longrightarrow>
        error (snd (snd (search c fetch input s)))
          = Some (new_Error (''HTTP error! status: '' @ show_nat (status r)))"
    by (auto simp: search_def start search_settle_def search_try_def http_error_message_object
        js_prop_def setPredictions_def setError_def setLoading_def)
  have p5: "fetch (autocomplete_request c input) = Resolved r \<and> ok r \<and> json r = Inr data
        \<and> js_prop data ''suggestions'' = JUndefined \<longrightarrow>
        (\<exists>msg. search c fetch input s =
          ([autocomplete_request c input], None,
           s\<lparr>predictions := [], loading := False, error := Some (JsError ''TypeError'' msg)\<rparr>))"
  proof
    assume a: "fetch (autocomplete_request c input) = Resolved r \<and> ok r \<and> json r = Inr data
        \<and> js_prop data ''suggestions'' = JUndefined"
    then obtain msg where "map_suggestions data = Inl (TypeError msg)"
      using map_suggestions_missing by blast
    with a have "search_try (Resolved r) (s\<lparr>loading := True, error := None\<rparr>) = Inl (TypeError msg)"
      by (simp add: search_try_def)
    with a show "\<exists>msg. search c fetch input s =
          ([autocomplete_request c input], None,
           s\<lparr>predictions := [], loading := False, error := Some (JsError ''TypeError'' msg)\<rparr>)"
      by (auto simp: search_def start search_settle_failure TypeError_def)
  qed
  have p6: "uncaught (run c evs initial_world) = []"
    by (simp add: uncaught_run initial_world_def)
  from p1 p2 p3 p4 p5 p6 show ?thesis by blast
qed

theorem search_failure_sets_error_witness:
  "search sample_options (\<lambda>req. Rejected (ThrownError (JsError ''TypeError'' ''Network error'')))
      ''test'' initial_state
     = ([autocomplete_request sample_options ''test''], None,
        \<lparr>predictions = [], loading = False,
         error = Some (JsError ''TypeError'' ''Network error'')\<rparr>)
   \<and> error (snd (snd (search sample_options
        (\<lambda>req. error_response 403 (JObj [(''error'', JObj [(''message'', JStr ''API key invalid'')])]))
        ''test'' initial_state))) = Some (JsError ''Error'' ''API key invalid'')
   \<and> error (snd (snd (search sample_options (\<lambda>req. error_response 500 (JObj []))
        ''test'' initial_state))) = Some (JsError ''Error'' ''HTTP error! status: 500'')
   \<and> (\<exists>msg. search sample_options (\<lambda>req. ok_response (JObj [(''invalid'', JStr ''response'')]))
        ''test'' initial_state
       = ([autocomplete_request sample_options ''test''], None,
          \<lparr>predictions = [], loading = False, error = Some (JsError ''TypeError'' msg)\<rparr>))"
proof -
  have h: "trim ''test'' \<noteq> []"
    by (simp add: trim_def js_whitespace_def)
  show ?thesis
    using
      search_failure_sets_error [OF h, where c = sample_options and s = initial_state
        and fetch = "\<lambda>req. Rejected (ThrownError (JsError ''TypeError'' ''Network error''))"
        and t = "ThrownError (JsError ''TypeError'' ''Network error'')"]
      search_failure_sets_error [OF h, where c = sample_options and s = initial_state
        and fetch = "\<lambda>req. error_response 403
                       (JObj [(''error'', JObj [(''message'', JStr ''API key invalid'')])])"
        and r = "\<lparr>ok = False, status = 403,
                  json = Inr (JObj [(''error'', JObj [(''message'', JStr ''API key invalid'')])])\<rparr>"
        and kvs = "[(''error'', JObj [(''message'', JStr ''API key invalid'')])]"
        and es = "[(''message'', JStr ''API key invalid'')]" and m = "''API key invalid''"]
      search_failure_sets_error [OF h, where c = sample_options and s = initial_state
        and fetch = "\<lambda>req. error_response 500 (JObj [])"
        and r = "\<lparr>ok = False, status = 500, json = Inr (JObj [])\<rparr>"
        and kvs = "[]"]
      search_failure_sets_error [OF h, where c = sample_options and s = initial_state
        and fetch = "\<lambda>req. ok_response (JObj [(''invalid'', JStr ''response'')])"
        and r = "\<lparr>ok = True, status = 200, json = Inr (JObj [(''invalid'', JStr ''response'')])\<rparr>"
        and data = "JObj [(''invalid'', JStr ''response'')]"]
    by (simp add: error_response_def ok_response_def initial_state_def new_Error_def js_prop_def
        show_nat.simps)
qed

text \<open>
  The sentence of C4 as the specification words it fails on two inputs. A transport that
  raises a value other than an \<^verbatim>\<open>Error\<close> instance (here the string \<^verbatim>\<open>'boom'\<close>)
  does not see that value surfaced: the error is the generic one. A failure body whose
  \<^verbatim>\<open>error.message\<close> is present and is the empty string does not give its message: the
  message is made from the status code.
\<close>

theorem search_failure_counterexample:
  "error (snd (snd (search sample_options (\<lambda>req. Rejected (ThrownOther (JStr ''boom'')))
      ''test'' initial_state))) = Some (JsError ''Error'' ''An error occurred'')
   \<and> error (snd (snd (search sample_options
        (\<lambda>req. error_response 502 (JObj [(''error'', JObj [(''message'', JStr '''')])]))
      ''test'' initial_state))) = Some (JsError ''Error'' ''HTTP error! status: 502'')"
  by (simp add: eval_search show_nat.simps)

subsection \<open>A successful search\<close>

text \<open>
  Claim C6. For every query that is not empty once trimmed and every successful response
  whose body holds a \<^verbatim>\<open>suggestions\<close> array of values that are neither \<^verbatim>\<open>null\<close>
  nor \<^verbatim>\<open>undefined\<close>, the prediction sequence becomes the \<^verbatim>\<open>placePrediction\<close> of
  each suggestion, in the order of the response; with an empty array it is empty; the error
  is none in both cases.
\<close>

theorem search_success_maps_suggestions:
  assumes "trim input \<noteq> []"
    and "fetch (autocomplete_request c input) = Resolved r" and "ok r"
    and "json r = Inr (JObj kvs)"
    and "map_of kvs ''suggestions'' = Some (JArr xs)"
    and "\<forall>x\<in>set xs. x \<noteq> JUndefined \<and> x \<noteq> JNull"
  shows "search c fetch input s =
     ([autocomplete_request c input], None,
      s\<lparr>predictions := map (\<lambda>x. js_prop x ''placePrediction'') xs,
        loading := False, error := None\<rparr>)"
  using assms
  by (simp add: search_def search_start_def search_settle_def search_try_def
      map_suggestions_def js_prop_def [of "JObj kvs"] mapE_get setLoading_def setError_def
      setPredictions_def)

theorem search_success_maps_suggestions_witness:
  "search sample_options
     (\<lambda>req. ok_response (JObj [(''suggestions'',
        JArr [JObj [(''placePrediction'', JStr ''p1'')], JObj [(''placePrediction'', JStr ''p2'')]])]))
     ''test'' initial_state
   = ([autocomplete_request sample_options ''test''], None,
      \<lparr>predictions = [JStr ''p1'', JStr ''p2''], loading = False, error = None\<rparr>)
   \<and> search sample_options (\<lambda>req. ok_response (JObj [(''suggestions'', JArr [])]))
     ''nonexistent'' initial_state
   = ([autocomplete_request sample_options ''nonexistent''], None,
      \<lparr>predictions = [], loading = False, error = None\<rparr>)"
proof -
  have h1: "trim ''test'' \<noteq> []" and h2: "trim ''nonexistent'' \<noteq> []"
    by (simp_all add: trim_def js_whitespace_def)
  show ?thesis
    using
      search_success_maps_suggestions [OF h1, where c = sample_options and s = initial_state
        and fetch = "\<lambda>req. ok_response (JObj [(''suggestions'',
          JArr [JObj [(''placePrediction'', JStr ''p1'')], JObj [(''placePrediction'', JStr ''p2'')]])])"
        and r = "\<lparr>ok = True, status = 200, json = Inr (JObj [(''suggestions'',
          JArr [JObj [(''placePrediction'', JStr ''p1'')], JObj [(''placePrediction'', JStr ''p2'')]])])\<rparr>"
        and kvs = "[(''suggestions'',
          JArr [JObj [(''placePrediction'', JStr ''p1'')], JObj [(''placePrediction'', JStr ''p2'')]])]"
        and xs = "[JObj [(''placePrediction'', JStr ''p1'')], JObj [(''placePrediction'', JStr ''p2'')]]"]
      search_success_maps_suggestions [OF h2, where c = sample_options and s = initial_state
        and fetch = "\<lambda>req. ok_response (JObj [(''suggestions'', JArr [])])"
        and r = "\<lparr>ok = True, status = 200, json = Inr (JObj [(''suggestions'', JArr [])])\<rparr>"
        and kvs = "[(''suggestions'', JArr [])]" and xs = "[]"]
    by (simp add: ok_response_def initial_state_def js_prop_def)
qed

subsection \<open>clear\<close>

text \<open>
  Claim C5. The clear operation resets the query text to the empty string, the prediction
  sequence to empty, the status to the empty variant, and the error to none. The two cells
  that \<^verbatim>\<open>clear\<close> of index.ts has, it resets so; on these and on the loading flag, which
  both leave alone, \<^verbatim>\<open>clearSuggestions\<close> of the specification does what \<^verbatim>\<open>clear\<close>
  of index.ts does.
\<close>

theorem clear_resets:
  "query_text (clearSuggestions ss) = []
   \<and> predictions (clearSuggestions ss) = []
   \<and> search_status (clearSuggestions ss) = StatusOkEmpty
   \<and> error (clearSuggestions ss) = None
   \<and> predictions (clear s) = []
   \<and> error (clear s) = None
   \<and> hook_state.truncate (clearSuggestions ss) = clear (hook_state.truncate ss)"
  by (simp add: clearSuggestions_def clear_def setError_def setPredictions_def
      hook_state.truncate_def)

theorem clear_resets_witness:
  "clearSuggestions
     \<lparr>predictions = [JStr ''p''], loading = False, error = Some (JsError ''Error'' ''old''),
      query_text = ''abc'', search_status = StatusError\<rparr>
   = \<lparr>predictions = [], loading = False, error = None,
      query_text = [], search_status = StatusOkEmpty\<rparr>
   \<and> clear \<lparr>predictions = [JStr ''p''], loading = False, error = Some (JsError ''Error'' ''old'')\<rparr>
       = \<lparr>predictions = [], loading = False, error = None\<rparr>"
  using clear_resets
    [where ss = "\<lparr>predictions = [JStr ''p''], loading = False,
                  error = Some (JsError ''Error'' ''old''),
                  query_text = ''abc'', search_status = StatusError\<rparr>"
       and s = "\<lparr>predictions = [JStr ''p''], loading = False,
                 error = Some (JsError ''Error'' ''old'')\<rparr>"]
  by (simp add: clearSuggestions_def clear_def setError_def setPredictions_def)

subsection \<open>getPlaceDetails\<close>

text \<open>
  Claim C1, as the hook has it. \<^verbatim>\<open>getPlaceDetails\<close> does not validate the
  identifier: for every identifier, the empty string included, it calls the transport
  once, with the URL built from the identifier as given, and its outcome is that of the
  call; on a successful response without address components it resolves with details that
  carry the identifier as given.
\<close>

theorem getPlaceDetails_no_validation:
  "fst (getPlaceDetails c fetch pid) = [details_request c pid]
   \<and> url (details_request c pid) =
       ''https://places.googleapis.com/v1/places/'' @ pid @ ''?key='' @ apiKey c
         @ ''&languageCode='' @ language_code c
   \<and> (fetch (details_request c pid) = Resolved r \<and> ok r \<and> json r = Inr (JObj kvs)
          \<and> map_of kvs ''addressComponents'' = None
        \<longrightarrow> (\<exists>d. snd (getPlaceDetails c fetch pid) = Inr d \<and> placeId d = pid))"
  by (simp add: getPlaceDetails_def details_request_def details_settle_def details_try_def
      js_prop_def extractAddressComponent_def js_get_opt_def)

theorem getPlaceDetails_no_validation_witness:
  "fst (getPlaceDetails sample_options (\<lambda>req. ok_response (JObj [])) '''')
     = [details_request sample_options '''']
   \<and> (\<exists>d. snd (getPlaceDetails sample_options (\<lambda>req. ok_response (JObj [])) '''') = Inr d
        \<and> placeId d = '''')"
  using getPlaceDetails_no_validation
    [where c = sample_options and fetch = "\<lambda>req. ok_response (JObj [])" and pid = "''''"
       and r = "\<lparr>ok = True, status = 200, json = Inr (JObj [])\<rparr>" and kvs = "[]"]
  by (simp add: ok_response_def)

text \<open>
  The sentence of C1 as the specification words it fails: with the empty identifier the
  transport is called, with the identifier missing from the path of the URL, and the
  promise resolves when the response is a success.
\<close>

theorem getPlaceDetails_empty_id_calls_transport:
  "getPlaceDetails sample_options
     (\<lambda>req. ok_response (JObj [(''formattedAddress'', JStr ''somewhere'')])) ''''
   = ([\<lparr>url = ''https://places.googleapis.com/v1/places/?key=K&languageCode=en'',
        http_method = ''GET'',
        headers = [(''Content-Type'', ''application/json''),
                   (''X-Goog-FieldMask'', ''formattedAddress,addressComponents,location'')],
        body = None\<rparr>],
      Inr \<lparr>placeId = '''', formattedAddress = JStr ''somewhere'', addressComponents = [],
           place_location = JUndefined, streetNumber = JUndefined, streetName = JUndefined,
           city = JUndefined, state = JUndefined, country = JUndefined,
           postalCode = JUndefined\<rparr>)"
  by (simp add: getPlaceDetails_def details_request_def details_settle_def details_try_def
      session_headers_def language_code_def js_prop_def extractAddressComponent_def
      js_get_opt_def sample_options_def ok_response_def)

lemma is_componentE:
  assumes "is_component v"
  obtains kvs ts where "v = JObj kvs" "map_of kvs ''types'' = Some (JArr ts)"
proof (cases v)
  case (JObj kvs)
  with assms obtain x where x: "map_of kvs ''types'' = Some x"
    by (auto simp: is_component_def split: option.splits)
  with assms JObj obtain ts where "x = JArr ts"
    by (cases x) (auto simp: is_component_def)
  with x JObj that show ?thesis by blast
qed (use assms in \<open>auto simp: is_component_def\<close>)

lemma find_component_wf:
  "\<forall>cmp\<in>set comps. is_component cmp \<Longrightarrow>
   find_component comps tag =
     Inr (case List.find (has_tag tag) comps of None \<Rightarrow> JUndefined | Some cmp \<Rightarrow> cmp)"
proof (induction comps)
  case Nil
  then show ?case by simp
next
  case (Cons a comps)
  from Cons.prems have "is_component a" by simp
  then obtain kvs ts where a: "a = JObj kvs" "map_of kvs ''types'' = Some (JArr ts)"
    by (rule is_componentE)
  from Cons show ?case
    by (simp add: a js_prop_def js_includes_def has_tag_def)
qed

lemma find_has_tag_is_component:
  "\<forall>cmp\<in>set comps. is_component cmp \<Longrightarrow> List.find (has_tag tag) comps = Some x
   \<Longrightarrow> \<exists>kvs. x = JObj kvs"
  by (auto simp: find_Some_iff elim!: is_componentE dest: nth_mem)

text \<open>On well-formed components the source's scan is the derived field of the specification.\<close>

lemma extractAddressComponent_wf:
  assumes "\<forall>cmp\<in>set comps. is_component cmp"
  shows "extractAddressComponent (JArr comps) tag = Inr (first_longText comps tag)"
proof (cases "List.find (has_tag tag) comps")
  case None
  then show ?thesis
    using assms
    by (simp add: extractAddressComponent_def find_component_wf first_longText_def js_get_opt_def)
next
  case (Some x)
  with assms obtain kvs where "x = JObj kvs"
    using find_has_tag_is_component by blast
  with Some show ?thesis
    using assms
    by (simp add: extractAddressComponent_def find_component_wf first_longText_def js_get_opt_def)
qed

text \<open>
  Claim C9. For every successful details response whose body is an object and whose
  address components, when present, are well-formed, \<^verbatim>\<open>getPlaceDetails\<close> resolves with
  each derived field (\<^verbatim>\<open>streetNumber\<close>, \<^verbatim>\<open>streetName\<close>, \<^verbatim>\<open>city\<close>,
  \<^verbatim>\<open>state\<close>, \<^verbatim>\<open>country\<close>, \<^verbatim>\<open>postalCode\<close>) equal to the long text of the first
  component whose types contain the tag of the field (\<^verbatim>\<open>street_number\<close>,
  \<^verbatim>\<open>route\<close>, \<^verbatim>\<open>locality\<close>, \<^verbatim>\<open>administrative_area_level_1\<close>, \<^verbatim>\<open>country\<close>,
  \<^verbatim>\<open>postal_code\<close>), and \<^verbatim>\<open>undefined\<close> when no component has the tag; an absent
  \<^verbatim>\<open>addressComponents\<close> counts as the empty sequence.
\<close>

theorem details_derived_fields:
  assumes "fetch (details_request c pid) = Resolved r" and "ok r" and "json r = Inr (JObj kvs)"
    and "map_of kvs ''addressComponents'' = None \<and> comps = []
         \<or> map_of kvs ''addressComponents'' = Some (JArr comps)"
    and "\<forall>cmp\<in>set comps. is_component cmp"
  shows "snd (getPlaceDetails c fetch pid) =
     Inr \<lparr>placeId = pid,
          formattedAddress = js_prop (JObj kvs) ''formattedAddress'',
          addressComponents = comps,
          place_location = js_prop (JObj kvs) ''location'',
          streetNumber = first_longText comps ''street_number'',
          streetName = first_longText comps ''route'',
          city = first_longText comps ''locality'',
          state = first_longText comps ''administrative_area_level_1'',
          country = first_longText comps ''country'',
          postalCode = first_longText comps ''postal_code''\<rparr>"
proof -
  have ac: "(if truthy (js_prop (JObj kvs) ''addressComponents'')
             then js_prop (JObj kvs) ''addressComponents'' else JArr []) = JArr comps"
    using assms(4) by (auto simp: js_prop_def)
  show ?thesis
    using assms(1,2,3,5)
    by (simp add: getPlaceDetails_def details_settle_def details_try_def ac
        extractAddressComponent_wf)
qed

theorem details_derived_fields_witness:
  "snd (getPlaceDetails sample_options
     (\<lambda>req. ok_response (JObj
        [(''formattedAddress'', JStr ''1 Main St''),
         (''addressComponents'',
          JArr [JObj [(''longText'', JStr ''94105''), (''types'', JArr [JStr ''postal_code''])],
                JObj [(''longText'', JStr ''San Francisco''),
                      (''types'', JArr [JStr ''locality'', JStr ''political''])],
                JObj [(''longText'', JStr ''Elsewhere''), (''types'', JArr [JStr ''locality''])]])]))
     ''p1'')
   = Inr \<lparr>placeId = ''p1'', formattedAddress = JStr ''1 Main St'',
          addressComponents =
            [JObj [(''longText'', JStr ''94105''), (''types'', JArr [JStr ''postal_code''])],
             JObj [(''longText'', JStr ''San Francisco''),
                   (''types'', JArr [JStr ''locality'', JStr ''political''])],
             JObj [(''longText'', JStr ''Elsewhere''), (''types'', JArr [JStr ''locality''])]],
          place_location = JUndefined, streetNumber = JUndefined, streetName = JUndefined,
          city = JStr ''San Francisco'', state = JUndefined, country = JUndefined,
          postalCode = JStr ''94105''\<rparr>
   \<and> snd (getPlaceDetails sample_options
       (\<lambda>req. ok_response (JObj [(''formattedAddress'', JStr ''1 Main St'')])) ''p1'')
   = Inr \<lparr>placeId = ''p1'', formattedAddress = JStr ''1 Main St'', addressComponents = [],
          place_location = JUndefined, streetNumber = JUndefined, streetName = JUndefined,
          city = JUndefined, state = JUndefined, country = JUndefined,
          postalCode = JUndefined\<rparr>"
  using
    details_derived_fields
    [where c = sample_options and pid = "''p1''"
       and fetch = "\<lambda>req. ok_response (JObj
        [(''formattedAddress'', JStr ''1 Main St''),
         (''addressComponents'',
          JArr [JObj [(''longText'', JStr ''94105''), (''types'', JArr [JStr ''postal_code''])],
                JObj [(''longText'', JStr ''San Francisco''),
                      (''types'', JArr [JStr ''locality'', JStr ''political''])],
                JObj [(''longText'', JStr ''Elsewhere''), (''types'', JArr [JStr ''locality''])]])])"
       and r = "\<lparr>ok = True, status = 200, json = Inr (JObj
        [(''formattedAddress'', JStr ''1 Main St''),
         (''addressComponents'',
          JArr [JObj [(''longText'', JStr ''94105''), (''types'', JArr [JStr ''postal_code''])],
                JObj [(''longText'', JStr ''San Francisco''),
                      (''types'', JArr [JStr ''locality'', JStr ''political''])],
                JObj [(''longText'', JStr ''Elsewhere''), (''types'', JArr [JStr ''locality''])]])])\<rparr>"
       and kvs = "[(''formattedAddress'', JStr ''1 Main St''),
         (''addressComponents'',
          JArr [JObj [(''longText'', JStr ''94105''), (''types'', JArr [JStr ''postal_code''])],
                JObj [(''longText'', JStr ''San Francisco''),
                      (''types'', JArr [JStr ''locality'', JStr ''political''])],
                JObj [(''longText'', JStr ''Elsewhere''), (''types'', JArr [JStr ''locality''])]])]"
       and comps = "[JObj [(''longText'', JStr ''94105''), (''types'', JArr [JStr ''postal_code''])],
                JObj [(''longText'', JStr ''San Francisco''),
                      (''types'', JArr [JStr ''locality'', JStr ''political''])],
                JObj [(''longText'', JStr ''Elsewhere''), (''types'', JArr [JStr ''locality''])]]"]
    details_derived_fields
    [where c = sample_options and pid = "''p1''"
       and fetch = "\<lambda>req. ok_response (JObj [(''formattedAddress'', JStr ''1 Main St'')])"
       and r = "\<lparr>ok = True, status = 200,
                 json = Inr (JObj [(''formattedAddress'', JStr ''1 Main St'')])\<rparr>"
       and kvs = "[(''formattedAddress'', JStr ''1 Main St'')]" and comps = "[]"]
  by (simp add: ok_response_def is_component_def first_longText_def has_tag_def js_prop_def)

subsection \<open>The session token\<close>

text \<open>
  Claim C10. The value of the configured session token is in no request. For the
  autocomplete request and for the details request alike, the request built with a token
  is the request built without one, with one more header when the token is not the empty
  string: \<^verbatim>\<open>X-Goog-Api-Key\<close>, whose value is the API key.
\<close>

theorem session_token_not_sent:
  "autocomplete_request ((c::options)\<lparr>sessionToken := Some t\<rparr>) input =
     (autocomplete_request (c\<lparr>sessionToken := None\<rparr>) input)
       \<lparr>headers := headers (autocomplete_request (c\<lparr>sessionToken := None\<rparr>) input)
                    @ (if t = [] then [] else [(''X-Goog-Api-Key'', apiKey c)])\<rparr>
   \<and> details_request (c\<lparr>sessionToken := Some t\<rparr>) pid =
     (details_request (c\<lparr>sessionToken := None\<rparr>) pid)
       \<lparr>headers := headers (details_request (c\<lparr>sessionToken := None\<rparr>) pid)
                    @ (if t = [] then [] else [(''X-Goog-Api-Key'', apiKey c)])\<rparr>"
  by (simp add: autocomplete_request_def details_request_def session_headers_def language_code_def)

theorem session_token_not_sent_witness:
  "autocomplete_request (sample_options\<lparr>sessionToken := Some ''secret-token''\<rparr>) ''test''
     = \<lparr>url = ''https://places.googleapis.com/v1/places:autocomplete?key=K'',
        http_method = ''POST'',
        headers =
          [(''Content-Type'', ''application/json''),
           (''X-Goog-FieldMask'',
            ''suggestions.placePrediction.place,suggestions.placePrediction.placeId,suggestions.placePrediction.text,suggestions.placePrediction.structuredFormat,suggestions.placePrediction.types''),
           (''X-Goog-Api-Key'', ''K'')],
        body = Some \<lparr>body_input = ''test'', body_languageCode = ''en'', body_types = None,
                     body_locationBias = None\<rparr>\<rparr>
   \<and> details_request (sample_options\<lparr>sessionToken := Some ''secret-token''\<rparr>) ''p1''
     = \<lparr>url = ''https://places.googleapis.com/v1/places/p1?key=K&languageCode=en'',
        http_method = ''GET'',
        headers =
          [(''Content-Type'', ''application/json''),
           (''X-Goog-FieldMask'', ''formattedAddress,addressComponents,location''),
           (''X-Goog-Api-Key'', ''K'')],
        body = None\<rparr>"
  using session_token_not_sent
    [where c = sample_options and t = "''secret-token''" and input = "''test''" and pid = "''p1''"]
  by (simp add: autocomplete_request_def details_request_def session_headers_def
      sample_options_def language_code_def)

subsection \<open>The debounced search\<close>

lemma timer_callback_loading:
  "loading_in_flight w \<Longrightarrow> loading_in_flight (timer_callback c q w)"
  by (auto simp: loading_in_flight_def timer_callback_def commit_def search_start_def clear_def
      setError_def setPredictions_def setLoading_def split: prod.splits option.splits if_splits)

lemma callbacks_loading:
  "loading_in_flight w \<Longrightarrow>
   loading_in_flight (foldl (\<lambda>w' t. timer_callback c (timer_input t) w') w ts)"
  by (induction ts arbitrary: w) (simp_all add: timer_callback_loading)

lemma timers_owned_step: "timers_owned w \<Longrightarrow> timers_owned (step c w ev)"
proof (cases ev)
  case (Search q)
  assume "timers_owned w"
  then show ?thesis
    by (cases "debounceTimer w")
      (auto simp: Search timers_owned_def debouncedSearch_def setTimeout_def clearTimeout_def)
next
  case (Elapse d)
  assume "timers_owned w"
  then show ?thesis
    by (simp add: Elapse timers_owned_def elapse_def Let_def callbacks_frame)
next
  case (Settle i outcome)
  assume "timers_owned w"
  then show ?thesis
    by (simp add: Settle timers_owned_def settle_def commit_def split: prod.splits)
next
  case Unmount
  assume "timers_owned w"
  then show ?thesis
    by (cases "debounceTimer w")
      (auto simp: Unmount timers_owned_def unmount_def cleanup_def clearTimeout_def)
qed (simp add: timers_owned_def commit_def)

lemma loading_in_flight_step: "loading_in_flight w \<Longrightarrow> loading_in_flight (step c w ev)"
proof (cases ev)
  case (Search q)
  assume "loading_in_flight w"
  then show ?thesis
    by (cases "debounceTimer w")
      (auto simp: Search loading_in_flight_def debouncedSearch_def setTimeout_def clearTimeout_def)
next
  case Clear
  assume "loading_in_flight w"
  then show ?thesis
    by (simp add: Clear loading_in_flight_def commit_def clear_def setError_def
        setPredictions_def)
next
  case (Elapse d)
  assume "loading_in_flight w"
  then have "loading_in_flight
      (w\<lparr>clock := clock w + d, timers := filter (\<lambda>t. \<not> due t \<le> clock w + d) (timers w)\<rparr>)"
    by (simp add: loading_in_flight_def)
  then show ?thesis
    by (simp add: Elapse elapse_def Let_def callbacks_loading)
next
  case (Settle i outcome)
  assume "loading_in_flight w"
  then show ?thesis
    by (simp add: Settle loading_in_flight_def settle_def commit_def search_settle_def
        setLoading_def split: prod.splits sum.splits)
next
  case Unmount
  then show ?thesis
    by (simp add: loading_in_flight_def unmount_def)
qed

lemma run_invariants:
  "timers_owned w \<Longrightarrow> loading_in_flight w \<Longrightarrow>
   timers_owned (run c evs w) \<and> loading_in_flight (run c evs w)"
  by (induction evs arbitrary: w) (simp_all add: timers_owned_step loading_in_flight_step)

lemma initial_invariants: "timers_owned initial_world \<and> loading_in_flight initial_world"
  by (simp add: timers_owned_def loading_in_flight_def initial_world_def initial_state_def)

lemma reachable_invariants:
  "timers_owned (run c evs initial_world) \<and> loading_in_flight (run c evs initial_world)"
  using run_invariants initial_invariants by blast

lemma unmount_owned:
  "timers_owned w \<Longrightarrow> unmount w = w\<lparr>timers := [], mounted := False\<rparr>"
  by (cases "debounceTimer w")
    (auto simp: timers_owned_def unmount_def cleanup_def clearTimeout_def filter_empty_conv)

text \<open>Once the component has unmounted, no event changes a state cell.\<close>

lemma callbacks_unmounted:
  "\<not> mounted w \<Longrightarrow>
   hook (foldl (\<lambda>w' t. timer_callback c (timer_input t) w') w ts) = hook w"
proof (induction ts arbitrary: w)
  case Nil
  then show ?case by simp
next
  case (Cons t ts)
  from Cons.prems have m: "\<not> mounted (timer_callback c (timer_input t) w)"
    by (simp add: timer_callback_frame)
  from Cons.prems have h: "hook (timer_callback c (timer_input t) w) = hook w"
    by (simp add: timer_callback_def commit_def split: prod.splits option.splits)
  from Cons.IH [OF m] h show ?case by simp
qed

lemma step_unmounted:
  assumes "\<not> mounted w"
  shows "hook (step c w ev) = hook w \<and> \<not> mounted (step c w ev)"
proof (cases ev)
  case (Search q)
  with assms show ?thesis
    by (cases "debounceTimer w") (simp_all add: debouncedSearch_def setTimeout_def clearTimeout_def)
next
  case Clear
  with assms show ?thesis by (simp add: commit_def)
next
  case (Elapse d)
  with assms show ?thesis
    by (simp add: elapse_def Let_def callbacks_frame callbacks_unmounted)
next
  case (Settle i outcome)
  with assms show ?thesis
    by (simp add: settle_def commit_def split: prod.splits)
next
  case Unmount
  with assms show ?thesis
    by (cases "debounceTimer w") (simp_all add: unmount_def cleanup_def clearTimeout_def)
qed

lemma run_unmounted: "\<not> mounted w \<Longrightarrow> hook (run c evs w) = hook w"
proof (induction evs arbitrary: w)
  case Nil
  then show ?case by simp
next
  case (Cons ev evs)
  from step_unmounted [OF Cons.prems, of c ev]
  have h: "hook (step c w ev) = hook w" and m: "\<not> mounted (step c w ev)"
    by simp_all
  from Cons.IH [OF m] h show ?case by simp
qed

text \<open>With no timeout armed and no new call to the debounced search, nothing is sent.\<close>

lemma step_idle:
  assumes "timers w = []" and "\<not> is_call ev"
  shows "timers (step c w ev) = [] \<and> net_log (step c w ev) = net_log w"
proof (cases ev)
  case (Search q)
  with assms(2) show ?thesis by simp
next
  case Clear
  with assms(1) show ?thesis by (simp add: commit_def)
next
  case (Elapse d)
  with assms(1) show ?thesis by (simp add: elapse_def)
next
  case (Settle i outcome)
  with assms(1) show ?thesis by (simp add: settle_def commit_def split: prod.splits)
next
  case Unmount
  with assms(1) show ?thesis
    by (cases "debounceTimer w") (simp_all add: unmount_def cleanup_def clearTimeout_def)
qed

lemma run_idle:
  "timers w = [] \<Longrightarrow> \<forall>ev\<in>set evs. \<not> is_call ev \<Longrightarrow> net_log (run c evs w) = net_log w"
proof (induction evs arbitrary: w)
  case Nil
  then show ?case by simp
next
  case (Cons ev evs)
  from Cons.prems have "\<not> is_call ev" and rest: "\<forall>ev\<in>set evs. \<not> is_call ev"
    by simp_all
  with step_idle [OF Cons.prems(1), of ev c]
  have t: "timers (step c w ev) = []" and n: "net_log (step c w ev) = net_log w"
    by simp_all
  from Cons.IH [OF t rest] n show ?case by simp
qed

lemma debouncedSearch_armed:
  assumes "timers_owned w"
  shows "armed c (debouncedSearch c q w) q"
    and "net_log (debouncedSearch c q w) = net_log w"
    and "hook (debouncedSearch c q w) = hook w"
  using assms
  by (cases "debounceTimer w";
      auto simp: timers_owned_def armed_def debouncedSearch_def setTimeout_def clearTimeout_def
        filter_empty_conv)+

lemma armedE:
  assumes "armed c w q"
  obtains t where "timers w = [t]" "due t = clock w + debounce_ms c" "timer_input t = q"
    "debounceTimer w = Some (handle t)"
  using assms by (auto simp: armed_def split: list.splits)

lemma elapse_short:
  assumes "armed c w q" and "g < debounce_ms c"
  shows "timers_owned (elapse c g w)" and "net_log (elapse c g w) = net_log w"
    and "hook (elapse c g w) = hook w"
proof -
  from assms(1) obtain t where t: "timers w = [t]" "due t = clock w + debounce_ms c"
    "debounceTimer w = Some (handle t)"
    by (rule armedE)
  with assms(2) have e: "elapse c g w = w\<lparr>clock := clock w + g\<rparr>"
    by (simp add: elapse_def)
  show "timers_owned (elapse c g w)" "net_log (elapse c g w) = net_log w"
    "hook (elapse c g w) = hook w"
    using t by (simp_all add: e timers_owned_def)
qed

lemma elapse_fire:
  assumes "armed c w q" and "debounce_ms c \<le> d"
  shows "elapse c d w = timer_callback c q (w\<lparr>clock := clock w + d, timers := []\<rparr>)"
proof -
  from assms(1) obtain t where t: "timers w = [t]" "due t = clock w + debounce_ms c"
    "timer_input t = q"
    by (rule armedE)
  with assms(2) show ?thesis
    by (simp add: elapse_def)
qed

lemma burst_snoc:
  "burst q (rest @ [(g, q')]) = burst q rest @ [Elapse g, Search q']"
  by (simp add: burst_def)

text \<open>
  During a burst nothing goes to the transport and no state cell changes; at its end the
  one armed timeout is that of the last call.
\<close>

lemma burst_armed:
  assumes "timers_owned w" and "\<forall>(g, q')\<in>set rest. g < debounce_ms c"
  shows "armed c (run c (burst q rest) w) (last (q # map snd rest))
       \<and> net_log (run c (burst q rest) w) = net_log w
       \<and> hook (run c (burst q rest) w) = hook w"
  using assms(2)
proof (induction rest rule: rev_induct)
  case Nil
  then show ?case
    using debouncedSearch_armed [OF assms(1)] by (simp add: burst_def)
next
  case (snoc x rest)
  obtain g q' where x: "x = (g, q')" by (cases x)
  from snoc.prems have g: "g < debounce_ms c" and rest: "\<forall>(g, q')\<in>set rest. g < debounce_ms c"
    by (auto simp: x)
  let ?w1 = "run c (burst q rest) w"
  from snoc.IH [OF rest] have a: "armed c ?w1 (last (q # map snd rest))"
    and n: "net_log ?w1 = net_log w" and h: "hook ?w1 = hook w"
    by simp_all
  have o: "timers_owned (elapse c g ?w1)"
    and n2: "net_log (elapse c g ?w1) = net_log w"
    and h2: "hook (elapse c g ?w1) = hook w"
    using elapse_short [OF a g] n h by simp_all
  show ?case
    using debouncedSearch_armed [OF o] n2 h2
    by (simp add: x burst_snoc)
qed

text \<open>
  Claim C3, as the hook has it. Take any state the hook can be in, and any burst of calls
  to the debounced search in which every call comes less than the debounce interval after
  the one before. During the burst no request goes to the transport, and at its end the
  only armed timeout is that of the last call: the earlier ones were cancelled before they
  fired. Once the interval has passed after the last call, \<^verbatim>\<open>search\<close> runs once, with
  the last query: it makes exactly one call to the transport, carrying that query, unless
  the query is empty once trimmed, in which case it makes none.
\<close>

theorem debounce_burst_single_search:
  assumes "\<forall>(g, q')\<in>set rest. g < debounce_ms c" and "debounce_ms c \<le> d"
  shows "net_log (run c (burst q rest) (run c evs initial_world))
           = net_log (run c evs initial_world)
       \<and> map timer_input (timers (run c (burst q rest) (run c evs initial_world)))
           = [last (q # map snd rest)]
       \<and> net_log (run c (burst q rest @ [Elapse d]) (run c evs initial_world))
           = net_log (run c evs initial_world)
             @ (if trim (last (q # map snd rest)) = [] then []
                else [autocomplete_request c (last (q # map snd rest))])
       \<and> timers (run c (burst q rest @ [Elapse d]) (run c evs initial_world)) = []"
proof -
  let ?w0 = "run c evs initial_world"
  let ?w1 = "run c (burst q rest) ?w0"
  have o: "timers_owned ?w0"
    using reachable_invariants by blast
  from burst_armed [OF o assms(1)]
  have a: "armed c ?w1 (last (q # map snd rest))" and n: "net_log ?w1 = net_log ?w0"
    by simp_all
  from a have t: "map timer_input (timers ?w1) = [last (q # map snd rest)]"
    by (auto elim: armedE)
  have f: "elapse c d ?w1
      = timer_callback c (last (q # map snd rest)) (?w1\<lparr>clock := clock ?w1 + d, timers := []\<rparr>)"
    using a assms(2) by (rule elapse_fire)
  show ?thesis
    using n t
    by (simp add: f timer_callback_def commit_def search_start_def split: prod.splits)
qed

theorem debounce_burst_single_search_witness:
  "net_log (run sample_options (burst ''a'' [(100, ''ab''), (299, ''abc'')] @ [Elapse 300])
      initial_world)
     = [autocomplete_request sample_options ''abc'']
   \<and> net_log (run sample_options (burst ''a'' [(100, ''ab''), (299, ''abc'')]) initial_world) = []"
proof -
  have h1: "\<forall>(g, q')\<in>set [(100, ''ab''), (299::nat, ''abc'')]. g < debounce_ms sample_options"
    by (simp add: debounce_ms_def sample_options_def)
  have h2: "debounce_ms sample_options \<le> 300"
    by (simp add: debounce_ms_def sample_options_def)
  show ?thesis
    using debounce_burst_single_search [OF h1 h2, where q = "''a''" and evs = "[]"]
    by (simp add: initial_world_def trim_def js_whitespace_def)
qed

text \<open>
  The sentence of C3 as the specification words it fails when the last query of the burst
  is blank: after \<^verbatim>\<open>'test'\<close> and, 100 ms later, the empty string, the interval passes
  and no call at all has gone to the transport.
\<close>

theorem debounce_blank_counterexample:
  "net_log (run sample_options (burst ''test'' [(100, '''')] @ [Elapse 300]) initial_world) = []"
  by (simp add: eval_world eval_search)

text \<open>
  Claim C2, as the hook has it. In any state the hook can be in, the unmount cancels the
  armed debounce timeout, raises nothing and changes no state cell. After it, whatever
  happens, no state cell changes any more: a call that was in flight settles without any
  effect on predictions, loading or error. After it no timeout is armed, so that, unless
  the caller calls the debounced search again, no callback fires and nothing goes to the
  transport. Loading reads false after the unmount when the component was mounted and no
  call was in flight at that time; with a call in flight it keeps the value it had, which
  can be true.
\<close>

theorem unmount_freezes_state:
  "hook (unmount (run c evs initial_world)) = hook (run c evs initial_world)
   \<and> uncaught (unmount (run c evs initial_world)) = uncaught (run c evs initial_world)
   \<and> timers (unmount (run c evs initial_world)) = []
   \<and> hook (run c evs' (unmount (run c evs initial_world))) = hook (run c evs initial_world)
   \<and> ((\<forall>ev\<in>set evs'. \<not> is_call ev) \<longrightarrow>
        net_log (run c evs' (unmount (run c evs initial_world)))
          = net_log (run c evs initial_world))
   \<and> (mounted (run c evs initial_world) \<and> in_flight (run c evs initial_world) = [] \<longrightarrow>
        \<not> loading (hook (run c evs' (unmount (run c evs initial_world)))))"
proof -
  let ?w = "run c evs initial_world"
  have inv: "timers_owned ?w" "loading_in_flight ?w"
    using reachable_invariants by blast+
  have u: "unmount ?w = ?w\<lparr>timers := [], mounted := False\<rparr>"
    using inv(1) by (rule unmount_owned)
  have frozen: "hook (run c evs' (unmount ?w)) = hook ?w"
    using run_unmounted [of "unmount ?w" c evs'] by (simp add: u)
  have idle: "(\<forall>ev\<in>set evs'. \<not> is_call ev) \<longrightarrow> net_log (run c evs' (unmount ?w)) = net_log ?w"
    using run_idle [of "unmount ?w" evs' c] by (simp add: u)
  have l: "mounted ?w \<and> in_flight ?w = [] \<longrightarrow> \<not> loading (hook ?w)"
    using inv(2) by (auto simp: loading_in_flight_def)
  show ?thesis
    using idle l by (simp add: frozen) (simp add: u)
qed

theorem unmount_freezes_state_witness:
  "timers (unmount (run sample_options [Search ''a'', Elapse 100] initial_world)) = []
   \<and> net_log (run sample_options [Elapse 300, Clear, Elapse 300]
        (unmount (run sample_options [Search ''a'', Elapse 100] initial_world))) = []
   \<and> \<not> loading (hook (run sample_options [Elapse 300, Clear, Elapse 300]
        (unmount (run sample_options [Search ''a'', Elapse 100] initial_world))))
   \<and> predictions (hook (run sample_options
        [Settle 0 (ok_response (JObj [(''suggestions'',
           JArr [JObj [(''placePrediction'', JStr ''p1'')]])]))]
        (unmount (run sample_options [Search ''a'', Elapse 300] initial_world)))) = []"
  using
    unmount_freezes_state [where c = sample_options and evs = "[Search ''a'', Elapse 100]"
      and evs' = "[Elapse 300, Clear, Elapse 300]"]
    unmount_freezes_state [where c = sample_options and evs = "[Search ''a'', Elapse 300]"
      and evs' = "[Settle 0 (ok_response (JObj [(''suggestions'',
         JArr [JObj [(''placePrediction'', JStr ''p1'')]])]))]"]
  by (simp add: eval_world eval_search)

text \<open>
  The sentence of C2 as the specification words it fails when a call is in flight at the
  unmount: after the debounced search was given \<^verbatim>\<open>'a'\<close> and the interval has passed,
  the call is in flight and loading reads true after the unmount; it still reads true
  after the call has settled and more time has passed.
\<close>

theorem unmount_in_flight_counterexample:
  "loading (hook (run sample_options [Search ''a'', Elapse 300, Unmount] initial_world))
   \<and> loading (hook (run sample_options
        [Search ''a'', Elapse 300, Unmount,
         Settle 0 (ok_response (JObj [(''suggestions'',
           JArr [JObj [(''placePrediction'', JStr ''p1'')]])])),
         Elapse 1000] initial_world))"
  by (simp add: eval_world eval_search)

end
